theory Spec2Isabelle
  imports Complex_Main "HOL-Library.Word"
begin

section \<open>Depth colorizer\<close>

text \<open>
  A depth sample is an IEEE value: a finite number, NaN or one of the two infinities.
  Finite samples are exact rationals here, and the arithmetic on them is exact: the
  rounding of the floating-point operations inside numpy and OpenCV is outside this
  model.
\<close>

datatype depth_val = Finite rat | NaN | PosInf | NegInf

text \<open>
  A numpy array of shape \<open>(rows, cols)\<close>, row-major. The shape is kept apart from the
  cells, so that a shape \<open>(0, w)\<close> or \<open>(h, 0)\<close> is a value of the type.
\<close>

record 'a mat =
  rows :: nat
  cols :: nat
  cells :: "'a list"

text \<open>\<^verbatim>\<open>np.nan_to_num(x, nan=0.0, posinf=0.0, neginf=0.0)\<close> on one sample.\<close>

fun nan_to_num :: "depth_val \<Rightarrow> rat" where
  "nan_to_num (Finite q) = q"
| "nan_to_num NaN = 0"
| "nan_to_num PosInf = 0"
| "nan_to_num NegInf = 0"

text \<open>\<^verbatim>\<open>np.clip(x, a_min, a_max)\<close> is \<^verbatim>\<open>minimum(maximum(x, a_min), a_max)\<close>.\<close>

definition np_clip :: "rat \<Rightarrow> rat \<Rightarrow> rat \<Rightarrow> rat" where
  "np_clip x a_min a_max = min (max x a_min) a_max"

definition smin :: "rat list \<Rightarrow> rat" where
  "smin xs = fold min (tl xs) (hd xs)"

definition smax :: "rat list \<Rightarrow> rat" where
  "smax xs = fold max (tl xs) (hd xs)"

definition DBL_EPSILON :: rat where
  "DBL_EPSILON = 1 / 2 ^ 52"

text \<open>
  \<^verbatim>\<open>cv2.normalize(src, None, a, b, cv2.NORM_MINMAX)\<close>: the destination range is
  \<open>[min a b, max a b]\<close>, the scale is 0 when the source's spread does not exceed
  \<open>DBL_EPSILON\<close>, and every cell becomes \<open>x * scale + shift\<close>.
\<close>

definition normalize_scale :: "rat \<Rightarrow> rat \<Rightarrow> rat list \<Rightarrow> rat" where
  "normalize_scale a b src =
     (max a b - min a b) *
     (if smax src - smin src > DBL_EPSILON then 1 / (smax src - smin src) else 0)"

definition normalize_shift :: "rat \<Rightarrow> rat \<Rightarrow> rat list \<Rightarrow> rat" where
  "normalize_shift a b src = min a b - smin src * normalize_scale a b src"

definition normalize_minmax :: "rat \<Rightarrow> rat \<Rightarrow> rat list \<Rightarrow> rat list" where
  "normalize_minmax a b src =
     map (\<lambda>x. x * normalize_scale a b src + normalize_shift a b src) src"

text \<open>\<^verbatim>\<open>astype(np.uint8)\<close> drops the fraction (towards zero) and keeps the low 8 bits.\<close>

definition trunc_to_zero :: "rat \<Rightarrow> int" where
  "trunc_to_zero x = (if 0 \<le> x then \<lfloor>x\<rfloor> else \<lceil>x\<rceil>)"

definition astype_uint8 :: "rat \<Rightarrow> 8 word" where
  "astype_uint8 x = word_of_int (trunc_to_zero x)"

text \<open>
  A color is a BGR triple. \<^verbatim>\<open>cv2.applyColorMap\<close> looks every 8-bit cell up in the
  table of the chosen colormap; the tables are OpenCV's, so they are a parameter
  \<open>lut\<close> (colormap number to table).
\<close>

type_synonym bgr = "8 word \<times> 8 word \<times> 8 word"
type_synonym lut = "nat \<Rightarrow> 8 word \<Rightarrow> bgr"

definition COLORMAP_JET :: nat where
  "COLORMAP_JET = 2"

definition clipped :: "depth_val list \<Rightarrow> rat \<times> rat \<Rightarrow> rat list" where
  "clipped cs clip_range =
     map (\<lambda>d. np_clip (nan_to_num d) (fst clip_range) (snd clip_range)) cs"

definition depth_8u :: "depth_val list \<Rightarrow> rat \<times> rat \<Rightarrow> 8 word list" where
  "depth_8u cs clip_range =
     map astype_uint8 (normalize_minmax 0 255 (clipped cs clip_range))"

definition process_depth_image ::
  "lut \<Rightarrow> depth_val mat \<Rightarrow> rat \<times> rat \<Rightarrow> nat \<Rightarrow> bgr mat" where
  "process_depth_image lut depth_np clip_range colormap =
     \<lparr>rows = rows depth_np, cols = cols depth_np,
      cells = map (lut colormap) (depth_8u (cells depth_np) clip_range)\<rparr>"

section \<open>Camera session\<close>

text \<open>
  The camera SDK is outside the repository. What the program sees of it is the error
  code of \<^verbatim>\<open>open\<close> and of \<^verbatim>\<open>grab\<close> and the depth grid of \<^verbatim>\<open>retrieve_measure\<close>; a
  \<open>device\<close> holds what the hardware answers at one call. The session keeps the list
  of the calls it has made on its camera, so that "the device is not touched" is a
  statement about the state.
\<close>

datatype RESOLUTION = HD2K | HD1080 | HD1200 | HD720 | SVGA | VGA | AUTO

datatype ERROR_CODE = SUCCESS | CAMERA_NOT_DETECTED | OTHER_CODE nat

datatype py_exception = RuntimeError | ValueError

datatype sdk_call = CallOpen | CallClose | CallGrab | CallRetrieveMeasure

record device =
  open_code :: ERROR_CODE
  grab_code :: ERROR_CODE
  depth_measure :: "depth_val mat"

record init_parameters =
  camera_resolution :: RESOLUTION
  camera_fps :: int

record ZEDCameraViewer =
  camera :: "sdk_call list"
  init_params :: init_parameters
  depth_mat :: "depth_val mat"
  running :: bool
  clip_range :: "int \<times> int"
  colormap :: nat

text \<open>
  \<^verbatim>\<open>__init__\<close>; \<open>ip\<close> is the SDK's fresh \<^verbatim>\<open>sl.InitParameters()\<close>.
\<close>

definition ZEDCameraViewer_init :: "init_parameters \<Rightarrow> ZEDCameraViewer" where
  "ZEDCameraViewer_init ip =
     \<lparr>camera = [], init_params = ip, depth_mat = \<lparr>rows = 0, cols = 0, cells = []\<rparr>,
      running = False, clip_range = (0, 5000), colormap = COLORMAP_JET\<rparr>"

definition resolutions :: "string \<rightharpoonup> RESOLUTION" where
  "resolutions = [''HD1080'' \<mapsto> HD1080, ''HD720'' \<mapsto> HD720, ''VGA'' \<mapsto> VGA]"

text \<open>\<^verbatim>\<open>d.get(key, default)\<close>.\<close>

definition dict_get :: "('k \<rightharpoonup> 'v) \<Rightarrow> 'k \<Rightarrow> 'v \<Rightarrow> 'v" where
  "dict_get d key dflt = (case d key of None \<Rightarrow> dflt | Some v \<Rightarrow> v)"

definition set_resolution :: "string \<Rightarrow> ZEDCameraViewer \<Rightarrow> ZEDCameraViewer" where
  "set_resolution resolution_text self =
     self\<lparr>init_params :=
       (init_params self)\<lparr>camera_resolution := dict_get resolutions resolution_text HD720\<rparr>\<rparr>"

text \<open>
  Python's \<^verbatim>\<open>int(s)\<close> on an ASCII string: surrounding whitespace is dropped, one sign
  is allowed, then come decimal digits, with single underscores between digits;
  anything else raises \<^verbatim>\<open>ValueError\<close>. (The cap that recent interpreters put on the
  number of digits is not modelled.)
\<close>

definition is_space :: "char \<Rightarrow> bool" where
  "is_space c =
     (let n = (of_char c :: nat) in n = 32 \<or> (9 \<le> n \<and> n \<le> 13) \<or> (28 \<le> n \<and> n \<le> 31))"

definition is_digit :: "char \<Rightarrow> bool" where
  "is_digit c = (let n = (of_char c :: nat) in 48 \<le> n \<and> n \<le> 57)"

definition digit_val :: "char \<Rightarrow> int" where
  "digit_val c = int (of_char c) - 48"

definition strip :: "string \<Rightarrow> string" where
  "strip s = rev (dropWhile is_space (rev (dropWhile is_space s)))"

fun parse_digits :: "int \<Rightarrow> string \<Rightarrow> int option" where
  "parse_digits acc [] = Some acc"
| "parse_digits acc [c] = (if is_digit c then Some (acc * 10 + digit_val c) else None)"
| "parse_digits acc (c # d # ds) =
     (if is_digit c then parse_digits (acc * 10 + digit_val c) (d # ds)
      else if c = CHR ''_'' \<and> is_digit d then parse_digits (acc * 10 + digit_val d) ds
      else None)"

definition py_int :: "string \<Rightarrow> py_exception + int" where
  "py_int text =
     (let s = strip text;
          (sign, body) =
            (case s of
               [] \<Rightarrow> (1, [])
             | c # r \<Rightarrow> if c = CHR ''-'' then (- 1, r) else if c = CHR ''+'' then (1, r) else (1, s))
      in case body of
           [] \<Rightarrow> Inl ValueError
         | c # cs \<Rightarrow>
             if is_digit c then
               (case parse_digits (digit_val c) cs of
                  None \<Rightarrow> Inl ValueError
                | Some n \<Rightarrow> Inr (sign * n))
             else Inl ValueError)"

text \<open>
  An operation that can raise returns the exception or \<open>()\<close>, and the state as the
  call left it: Python keeps the assignments made before the \<^verbatim>\<open>raise\<close>.
\<close>

type_synonym 's outcome = "(py_exception + unit) \<times> 's"

definition set_fps :: "string \<Rightarrow> ZEDCameraViewer \<Rightarrow> ZEDCameraViewer outcome" where
  "set_fps fps_text self =
     (case py_int fps_text of
        Inl e \<Rightarrow> (Inl e, self)
      | Inr n \<Rightarrow> (Inr (), self\<lparr>init_params := (init_params self)\<lparr>camera_fps := n\<rparr>\<rparr>))"

definition set_clip_range :: "int \<Rightarrow> int \<Rightarrow> ZEDCameraViewer \<Rightarrow> ZEDCameraViewer" where
  "set_clip_range clip_min clip_max self = self\<lparr>clip_range := (clip_min, clip_max)\<rparr>"

definition start :: "device \<Rightarrow> ZEDCameraViewer \<Rightarrow> ZEDCameraViewer outcome" where
  "start dev self =
     (let self = self\<lparr>camera := camera self @ [CallOpen]\<rparr>
      in if open_code dev \<noteq> SUCCESS then (Inl RuntimeError, self)
         else (Inr (), self\<lparr>running := True\<rparr>))"

definition stop :: "ZEDCameraViewer \<Rightarrow> ZEDCameraViewer" where
  "stop self = (self\<lparr>running := False\<rparr>)\<lparr>camera := camera self @ [CallClose]\<rparr>"

definition get_depth_image ::
  "lut \<Rightarrow> device \<Rightarrow> ZEDCameraViewer \<Rightarrow> bgr mat option \<times> ZEDCameraViewer" where
  "get_depth_image lut dev self =
     (if \<not> running self then (None, self)
      else
        let self = self\<lparr>camera := camera self @ [CallGrab]\<rparr>
        in if grab_code dev = SUCCESS then
             let self = self\<lparr>camera := camera self @ [CallRetrieveMeasure],
                             depth_mat := depth_measure dev\<rparr>;
                 depth_np = depth_mat self;
                 h = rows depth_np;
                 w = cols depth_np
             in if h = 0 \<or> w = 0 then (None, self)
                else (Some (process_depth_image lut depth_np
                              (of_int (fst (clip_range self)), of_int (snd (clip_range self)))
                              (colormap self)),
                      self)
           else (None, self))"

text \<open>A run of polls, one device answer per poll.\<close>

fun polls ::
  "lut \<Rightarrow> device list \<Rightarrow> ZEDCameraViewer \<Rightarrow> bgr mat option list \<times> ZEDCameraViewer" where
  "polls lut [] self = ([], self)"
| "polls lut (dev # devs) self =
     (let (img, self) = get_depth_image lut dev self;
          (imgs, self) = polls lut devs self
      in (img # imgs, self))"

section \<open>Dual-session controller\<close>

type_synonym rgb = "8 word \<times> 8 word \<times> 8 word"

text \<open>
  The window: the two sessions, the current values of the controls, the two image
  panes (\<open>None\<close> is a pane with no pixmap) and the timer (\<open>None\<close> while it is not
  started, else its interval in milliseconds).
\<close>

record DualZEDViewer =
  viewer1 :: ZEDCameraViewer
  viewer2 :: ZEDCameraViewer
  res_combo1 :: string
  res_combo2 :: string
  fps_combo1 :: string
  fps_combo2 :: string
  clip_min_box :: int
  clip_max_box :: int
  camera_selector :: string
  image_label1 :: "rgb mat option"
  image_label2 :: "rgb mat option"
  timer :: "nat option"

text \<open>\<^verbatim>\<open>__init__\<close>: a combo box shows the first item added to it.\<close>

definition DualZEDViewer_init :: "init_parameters \<Rightarrow> DualZEDViewer" where
  "DualZEDViewer_init ip =
     \<lparr>viewer1 = ZEDCameraViewer_init ip, viewer2 = ZEDCameraViewer_init ip,
      res_combo1 = ''HD1080'', res_combo2 = ''HD1080'',
      fps_combo1 = ''15'', fps_combo2 = ''15'',
      clip_min_box = 0, clip_max_box = 1000,
      camera_selector = ''Both Cameras'',
      image_label1 = None, image_label2 = None, timer = None\<rparr>"

definition cv_to_pixmap :: "bgr mat \<Rightarrow> rgb mat" where
  "cv_to_pixmap img =
     \<lparr>rows = rows img, cols = cols img, cells = map (\<lambda>(b, g, r). (r, g, b)) (cells img)\<rparr>"

text \<open>The rest of a method runs only if the call before it did not raise.\<close>

definition and_then :: "'s outcome \<Rightarrow> ('s \<Rightarrow> 's outcome) \<Rightarrow> 's outcome" where
  "and_then r f = (case r of (Inl e, s) \<Rightarrow> (Inl e, s) | (Inr u, s) \<Rightarrow> f s)"

definition on_viewer1 ::
  "(ZEDCameraViewer \<Rightarrow> ZEDCameraViewer outcome) \<Rightarrow> DualZEDViewer \<Rightarrow> DualZEDViewer outcome" where
  "on_viewer1 f self = (case f (viewer1 self) of (r, v) \<Rightarrow> (r, self\<lparr>viewer1 := v\<rparr>))"

definition on_viewer2 ::
  "(ZEDCameraViewer \<Rightarrow> ZEDCameraViewer outcome) \<Rightarrow> DualZEDViewer \<Rightarrow> DualZEDViewer outcome" where
  "on_viewer2 f self = (case f (viewer2 self) of (r, v) \<Rightarrow> (r, self\<lparr>viewer2 := v\<rparr>))"

definition start_viewing :: "device \<Rightarrow> device \<Rightarrow> DualZEDViewer \<Rightarrow> DualZEDViewer outcome" where
  "start_viewing dev1 dev2 self =
     (let clip_min = clip_min_box self;
          clip_max = clip_max_box self;
          self = self\<lparr>viewer1 := set_resolution (res_combo1 self) (viewer1 self)\<rparr>;
          self = self\<lparr>viewer2 := set_resolution (res_combo2 self) (viewer2 self)\<rparr>
      in and_then (on_viewer1 (set_fps (fps_combo1 self)) self) (\<lambda>self.
         and_then (on_viewer2 (set_fps (fps_combo2 self)) self) (\<lambda>self.
         let self = self\<lparr>viewer1 := set_clip_range clip_min clip_max (viewer1 self)\<rparr>;
             self = self\<lparr>viewer2 := set_clip_range clip_min clip_max (viewer2 self)\<rparr>;
             selected_mode = camera_selector self
         in and_then
              (if selected_mode \<in> set [''Both Cameras'', ''Camera 1 Only'']
               then on_viewer1 (start dev1) self
               else (Inr (), self\<lparr>image_label1 := None\<rparr>)) (\<lambda>self.
            and_then
              (if selected_mode \<in> set [''Both Cameras'', ''Camera 2 Only'']
               then on_viewer2 (start dev2) self
               else (Inr (), self\<lparr>image_label2 := None\<rparr>)) (\<lambda>self.
            (Inr (), self\<lparr>timer := Some 30\<rparr>))))))"

definition update_images :: "lut \<Rightarrow> device \<Rightarrow> device \<Rightarrow> DualZEDViewer \<Rightarrow> DualZEDViewer" where
  "update_images lut dev1 dev2 self =
     (let selected_mode = camera_selector self;
          self =
            (if selected_mode \<in> set [''Both Cameras'', ''Camera 1 Only'']
             then (case get_depth_image lut dev1 (viewer1 self) of
                     (img1, v) \<Rightarrow>
                       (case img1 of
                          None \<Rightarrow> self\<lparr>viewer1 := v\<rparr>
                        | Some img \<Rightarrow>
                            self\<lparr>viewer1 := v, image_label1 := Some (cv_to_pixmap img)\<rparr>))
             else self)
      in if selected_mode \<in> set [''Both Cameras'', ''Camera 2 Only'']
         then (case get_depth_image lut dev2 (viewer2 self) of
                 (img2, v) \<Rightarrow>
                   (case img2 of
                      None \<Rightarrow> self\<lparr>viewer2 := v\<rparr>
                    | Some img \<Rightarrow>
                        self\<lparr>viewer2 := v, image_label2 := Some (cv_to_pixmap img)\<rparr>))
         else self)"

section \<open>Concrete inputs\<close>

definition scenario_frame :: "depth_val mat" where
  "scenario_frame =
     \<lparr>rows = 2, cols = 3,
      cells = [Finite 0, Finite 500, Finite 1000, NaN, Finite (- 50), Finite 2000]\<rparr>"

text \<open>A table for closed examples: the gray level itself on the three channels.\<close>

definition gray_lut :: lut where
  "gray_lut cm v = (v, v, v)"

definition hd720_at_30 :: init_parameters where
  "hd720_at_30 = \<lparr>camera_resolution = HD720, camera_fps = 30\<rparr>"

definition healthy_device :: device where
  "healthy_device =
     \<lparr>open_code = SUCCESS, grab_code = SUCCESS, depth_measure = scenario_frame\<rparr>"

definition absent_device :: device where
  "absent_device =
     \<lparr>open_code = CAMERA_NOT_DETECTED, grab_code = CAMERA_NOT_DETECTED,
      depth_measure = \<lparr>rows = 0, cols = 0, cells = []\<rparr>\<rparr>"



text \<open>
  A session as \<^verbatim>\<open>__init__\<close> leaves it, and the same session after a successful start.
\<close>

definition closed_viewer :: ZEDCameraViewer where
  "closed_viewer = ZEDCameraViewer_init hd720_at_30"

definition open_viewer :: ZEDCameraViewer where
  "open_viewer = closed_viewer\<lparr>camera := [CallOpen], running := True\<rparr>"

text \<open>
  The window as \<^verbatim>\<open>__init__\<close> leaves it, and with the other two display modes selected.
\<close>

definition fresh_window :: DualZEDViewer where
  "fresh_window = DualZEDViewer_init hd720_at_30"

definition camera2_only_window :: DualZEDViewer where
  "camera2_only_window = fresh_window\<lparr>camera_selector := ''Camera 2 Only''\<rparr>"

definition camera1_only_window :: DualZEDViewer where
  "camera1_only_window = fresh_window\<lparr>camera_selector := ''Camera 1 Only''\<rparr>"

text \<open>Windows whose selected session is open, and a pixmap that a pane may already show.\<close>

definition polling_window1 :: DualZEDViewer where
  "polling_window1 = camera1_only_window\<lparr>viewer1 := open_viewer\<rparr>"

definition polling_window2 :: DualZEDViewer where
  "polling_window2 = camera2_only_window\<lparr>viewer2 := open_viewer\<rparr>"

definition shown_pixmap :: "rgb mat" where
  "shown_pixmap = \<lparr>rows = 1, cols = 1, cells = [(1, 2, 3)]\<rparr>"

section \<open>The scenario of the colorizer\<close>

lemma scenario_clipped:
  "clipped (cells scenario_frame) (0, 1000) = [0, 500, 1000, 0, 0, 1000]"
  by (simp add: scenario_frame_def clipped_def np_clip_def)

lemma scenario_min_max:
  "smin [0, 500, 1000, 0, 0, 1000] = 0" "smax [0, 500, 1000, 0, 0, 1000] = 1000"
  by (simp_all add: smin_def smax_def)

lemma scenario_scale_shift:
  "normalize_scale 0 255 [0, 500, 1000, 0, 0, 1000] = 51 / 200"
  "normalize_shift 0 255 [0, 500, 1000, 0, 0, 1000] = 0"
  by (simp_all add: normalize_scale_def normalize_shift_def scenario_min_max DBL_EPSILON_def)

lemma scenario_normalized:
  "normalize_minmax 0 255 [0, 500, 1000, 0, 0, 1000] = [0, 255 / 2, 255, 0, 0, 255]"
  by (simp add: normalize_minmax_def scenario_scale_shift)

lemma floor_scenario_half: "\<lfloor>255 / 2 :: rat\<rfloor> = 127"
  by (rule floor_unique) simp_all

lemma scenario_8u:
  "depth_8u (cells scenario_frame) (0, 1000) = [0, 127, 255, 0, 0, 255]"
  by (simp add: depth_8u_def scenario_clipped scenario_normalized astype_uint8_def
      trunc_to_zero_def floor_scenario_half)

text \<open>
  C1. For the frame \<open>[[0, 500, 1000], [NaN, -50, 2000]]\<close> and the clip range
  \<open>(0, 1000)\<close>, the clipped grid is \<open>[[0, 500, 1000], [0, 0, 1000]]\<close>, its minimum is 0
  and its maximum 1000, the 8-bit grid is \<open>[[0, 127, 255], [0, 0, 255]]\<close>, and the image
  returned by \<open>process_depth_image\<close> is the table of the colormap applied to each cell of
  that grid, in the shape of the input.
\<close>

theorem C1_scenario_pipeline:
  "clipped (cells scenario_frame) (0, 1000) = [0, 500, 1000, 0, 0, 1000]
   \<and> smin (clipped (cells scenario_frame) (0, 1000)) = 0
   \<and> smax (clipped (cells scenario_frame) (0, 1000)) = 1000
   \<and> depth_8u (cells scenario_frame) (0, 1000) = [0, 127, 255, 0, 0, 255]
   \<and> process_depth_image lut scenario_frame (0, 1000) cm =
       \<lparr>rows = 2, cols = 3,
        cells = [lut cm 0, lut cm 127, lut cm 255,
                 lut cm 0, lut cm 0, lut cm 255]\<rparr>"
  by (simp add: process_depth_image_def scenario_8u scenario_clipped scenario_min_max)
    (simp add: scenario_frame_def)

section \<open>Uniform frames\<close>











section \<open>Normalization over the frame\<close>














section \<open>Session operations\<close>

lemma resolutions_lookup:
  "resolutions t =
     (if t = ''VGA'' then Some VGA else if t = ''HD720'' then Some HD720
      else if t = ''HD1080'' then Some HD1080 else None)"
  by (simp add: resolutions_def)

text \<open>
  C7. \<open>set_resolution\<close> stores the resolution of the tokens \<open>HD1080\<close>, \<open>HD720\<close> and
  \<open>VGA\<close>, and \<open>HD720\<close> for every other token. It has no raising branch: its result is
  always the updated session.
\<close>

theorem C7_set_resolution_total:
  "set_resolution ''HD1080'' v =
     v\<lparr>init_params := (init_params v)\<lparr>camera_resolution := HD1080\<rparr>\<rparr>
   \<and> set_resolution ''HD720'' v =
     v\<lparr>init_params := (init_params v)\<lparr>camera_resolution := HD720\<rparr>\<rparr>
   \<and> set_resolution ''VGA'' v =
     v\<lparr>init_params := (init_params v)\<lparr>camera_resolution := VGA\<rparr>\<rparr>
   \<and> (t \<notin> {''HD1080'', ''HD720'', ''VGA''} \<longrightarrow>
        set_resolution t v =
          v\<lparr>init_params := (init_params v)\<lparr>camera_resolution := HD720\<rparr>\<rparr>)"
  by (simp add: set_resolution_def dict_get_def resolutions_lookup)

theorem C7_set_resolution_witness:
  "camera_resolution (init_params
     (set_resolution ''4K'' (set_resolution ''HD1080'' (ZEDCameraViewer_init hd720_at_30)))) = HD720
   \<and> camera_resolution (init_params
     (set_resolution ''HD1080'' (ZEDCameraViewer_init hd720_at_30))) = HD1080"
  using C7_set_resolution_total
    [of "ZEDCameraViewer_init hd720_at_30" "''4K''"]
    C7_set_resolution_total
    [of "set_resolution ''HD1080'' (ZEDCameraViewer_init hd720_at_30)" "''4K''"]
  by simp

lemma get_depth_image_closed:
  "\<not> running v \<Longrightarrow> get_depth_image lut dev v = (None, v)"
  by (simp add: get_depth_image_def)

lemma get_depth_image_frame:
  assumes "running v" "grab_code dev = SUCCESS"
    and "0 < rows (depth_measure dev)" "0 < cols (depth_measure dev)"
  shows "fst (get_depth_image lut dev v) =
           Some (process_depth_image lut (depth_measure dev)
                  (of_int (fst (clip_range v)), of_int (snd (clip_range v))) (colormap v))"
  using assms by (simp add: get_depth_image_def Let_def)

lemma get_depth_image_None_iff:
  "fst (get_depth_image lut dev v) = None \<longleftrightarrow>
     (\<not> running v \<or> grab_code dev \<noteq> SUCCESS
      \<or> rows (depth_measure dev) = 0 \<or> cols (depth_measure dev) = 0)"
  by (auto simp add: get_depth_image_def Let_def)

text \<open>
  C4. \<open>get_depth_image\<close> has no raising branch. It returns no frame exactly when the
  session is not running, or the grab does not succeed, or the retrieved grid has no
  rows or no columns; otherwise it returns the colorized image of the retrieved grid.
  On a session that is not running the state, and with it the list of calls made on
  the camera, is unchanged.
\<close>

theorem C4_get_depth_image_total:
  "(fst (get_depth_image lut dev v) = None \<longleftrightarrow>
      (\<not> running v \<or> grab_code dev \<noteq> SUCCESS
       \<or> rows (depth_measure dev) = 0 \<or> cols (depth_measure dev) = 0))
   \<and> (running v \<and> grab_code dev = SUCCESS
        \<and> 0 < rows (depth_measure dev) \<and> 0 < cols (depth_measure dev)
        \<longrightarrow> fst (get_depth_image lut dev v) =
           Some (process_depth_image lut (depth_measure dev)
                  (of_int (fst (clip_range v)), of_int (snd (clip_range v))) (colormap v)))
   \<and> (\<not> running v \<longrightarrow> get_depth_image lut dev v = (None, v))"
proof (intro conjI impI)
  show "fst (get_depth_image lut dev v) = None \<longleftrightarrow>
      (\<not> running v \<or> grab_code dev \<noteq> SUCCESS
       \<or> rows (depth_measure dev) = 0 \<or> cols (depth_measure dev) = 0)"
    by (rule get_depth_image_None_iff)
next
  assume "running v \<and> grab_code dev = SUCCESS \<and> 0 < rows (depth_measure dev)
    \<and> 0 < cols (depth_measure dev)"
  then show "fst (get_depth_image lut dev v) =
           Some (process_depth_image lut (depth_measure dev)
                  (of_int (fst (clip_range v)), of_int (snd (clip_range v))) (colormap v))"
    by (simp add: get_depth_image_frame)
next
  assume "\<not> running v"
  then show "get_depth_image lut dev v = (None, v)"
    by (rule get_depth_image_closed)
qed

lemma start_failure:
  "open_code dev \<noteq> SUCCESS \<Longrightarrow>
     start dev v = (Inl RuntimeError, v\<lparr>camera := camera v @ [CallOpen]\<rparr>)"
  by (simp add: start_def)

lemma start_success:
  "open_code dev = SUCCESS \<Longrightarrow>
     start dev v = (Inr (), v\<lparr>camera := camera v @ [CallOpen], running := True\<rparr>)"
  by (simp add: start_def)

lemma polls_closed:
  "\<not> running v \<Longrightarrow> polls lut devs v = (map (\<lambda>_. None) devs, v)"
  by (induction devs) (simp_all add: get_depth_image_closed)

text \<open>
  C10. When opening the device fails, \<open>start\<close> raises and changes nothing but the record
  of the attempted call: the running flag keeps its value. After a failed start of a
  closed session every poll returns no frame and the session stays closed. The flag
  is set only by a successful open.
\<close>

theorem C10_start_atomic_on_failure:
  "(open_code dev \<noteq> SUCCESS \<longrightarrow>
      start dev v = (Inl RuntimeError, v\<lparr>camera := camera v @ [CallOpen]\<rparr>)
      \<and> running (snd (start dev v)) = running v)
   \<and> (open_code dev \<noteq> SUCCESS \<and> \<not> running v \<longrightarrow>
      fst (polls lut devs (snd (start dev v))) = map (\<lambda>_. None) devs
      \<and> running (snd (polls lut devs (snd (start dev v)))) = False)
   \<and> (open_code dev = SUCCESS \<longrightarrow>
      fst (start dev v) = Inr () \<and> running (snd (start dev v)))
   \<and> (\<not> running v \<and> running (snd (start dev v)) \<longrightarrow> open_code dev = SUCCESS)"
  by (cases "open_code dev = SUCCESS") (simp_all add: start_failure start_success polls_closed)

section \<open>Parsing the frame rate\<close>

lemma py_int_15: "py_int ''15'' = Inr 15"
  by (simp add: py_int_def strip_def is_space_def is_digit_def digit_val_def)









section \<open>Starting and polling\<close>

lemmas start_viewing_defs =
  start_viewing_def Let_def and_then_def on_viewer1_def on_viewer2_def set_fps_def start_def
  set_resolution_def set_clip_range_def

lemma start_viewing_both_fail1:
  assumes "py_int (fps_combo1 d) = Inr f1" "py_int (fps_combo2 d) = Inr f2"
    "camera_selector d = ''Both Cameras''" "open_code dev1 \<noteq> SUCCESS"
  shows "fst (start_viewing dev1 dev2 d) = Inl RuntimeError"
    "camera (viewer2 (snd (start_viewing dev1 dev2 d))) = camera (viewer2 d)"
    "running (viewer2 (snd (start_viewing dev1 dev2 d))) = running (viewer2 d)"
    "running (viewer1 (snd (start_viewing dev1 dev2 d))) = running (viewer1 d)"
    "timer (snd (start_viewing dev1 dev2 d)) = timer d"
  using assms by (simp_all add: start_viewing_defs)

lemma start_viewing_both_fail2:
  assumes "py_int (fps_combo1 d) = Inr f1" "py_int (fps_combo2 d) = Inr f2"
    "camera_selector d = ''Both Cameras''" "open_code dev1 = SUCCESS" "open_code dev2 \<noteq> SUCCESS"
  shows "fst (start_viewing dev1 dev2 d) = Inl RuntimeError"
    "running (viewer1 (snd (start_viewing dev1 dev2 d)))"
    "running (viewer2 (snd (start_viewing dev1 dev2 d))) = running (viewer2 d)"
    "timer (snd (start_viewing dev1 dev2 d)) = timer d"
  using assms by (simp_all add: start_viewing_defs)

lemma start_viewing_both_ok:
  assumes "py_int (fps_combo1 d) = Inr f1" "py_int (fps_combo2 d) = Inr f2"
    "camera_selector d = ''Both Cameras''" "open_code dev1 = SUCCESS" "open_code dev2 = SUCCESS"
  shows "fst (start_viewing dev1 dev2 d) = Inr ()"
    "running (viewer1 (snd (start_viewing dev1 dev2 d)))"
    "running (viewer2 (snd (start_viewing dev1 dev2 d)))"
    "timer (snd (start_viewing dev1 dev2 d)) = Some 30"
    "image_label1 (snd (start_viewing dev1 dev2 d)) = image_label1 d"
    "image_label2 (snd (start_viewing dev1 dev2 d)) = image_label2 d"
  using assms by (simp_all add: start_viewing_defs)

lemma start_viewing_cam1:
  assumes "py_int (fps_combo1 d) = Inr f1" "py_int (fps_combo2 d) = Inr f2"
    "camera_selector d = ''Camera 1 Only''" "open_code dev1 = SUCCESS"
  shows "fst (start_viewing dev1 dev2 d) = Inr ()"
    "running (viewer1 (snd (start_viewing dev1 dev2 d)))"
    "running (viewer2 (snd (start_viewing dev1 dev2 d))) = running (viewer2 d)"
    "camera (viewer2 (snd (start_viewing dev1 dev2 d))) = camera (viewer2 d)"
    "image_label2 (snd (start_viewing dev1 dev2 d)) = None"
    "timer (snd (start_viewing dev1 dev2 d)) = Some 30"
    "camera_selector (snd (start_viewing dev1 dev2 d)) = ''Camera 1 Only''"
    "colormap (viewer1 (snd (start_viewing dev1 dev2 d))) = colormap (viewer1 d)"
    "clip_range (viewer1 (snd (start_viewing dev1 dev2 d))) = (clip_min_box d, clip_max_box d)"
  using assms by (simp_all add: start_viewing_defs)

lemma start_viewing_cam2:
  assumes "py_int (fps_combo1 d) = Inr f1" "py_int (fps_combo2 d) = Inr f2"
    "camera_selector d = ''Camera 2 Only''" "open_code dev2 = SUCCESS"
  shows "fst (start_viewing dev1 dev2 d) = Inr ()"
    "running (viewer2 (snd (start_viewing dev1 dev2 d)))"
    "running (viewer1 (snd (start_viewing dev1 dev2 d))) = running (viewer1 d)"
    "camera (viewer1 (snd (start_viewing dev1 dev2 d))) = camera (viewer1 d)"
    "image_label1 (snd (start_viewing dev1 dev2 d)) = None"
    "timer (snd (start_viewing dev1 dev2 d)) = Some 30"
    "camera_selector (snd (start_viewing dev1 dev2 d)) = ''Camera 2 Only''"
    "colormap (viewer2 (snd (start_viewing dev1 dev2 d))) = colormap (viewer2 d)"
    "clip_range (viewer2 (snd (start_viewing dev1 dev2 d))) = (clip_min_box d, clip_max_box d)"
  using assms by (simp_all add: start_viewing_defs)

lemma update_images_pane1:
  "image_label1 (update_images lut dev1 dev2 d) =
     (if camera_selector d \<in> set [''Both Cameras'', ''Camera 1 Only'']
      then (case fst (get_depth_image lut dev1 (viewer1 d)) of
              None \<Rightarrow> image_label1 d
            | Some img \<Rightarrow> Some (cv_to_pixmap img))
      else image_label1 d)"
  by (auto simp add: update_images_def Let_def split: prod.splits option.splits)

lemma update_images_pane2:
  "image_label2 (update_images lut dev1 dev2 d) =
     (if camera_selector d \<in> set [''Both Cameras'', ''Camera 2 Only'']
      then (case fst (get_depth_image lut dev2 (viewer2 d)) of
              None \<Rightarrow> image_label2 d
            | Some img \<Rightarrow> Some (cv_to_pixmap img))
      else image_label2 d)"
  by (auto simp add: update_images_def Let_def split: prod.splits option.splits)

lemma update_images_viewer1:
  "viewer1 (update_images lut dev1 dev2 d) =
     (if camera_selector d \<in> set [''Both Cameras'', ''Camera 1 Only'']
      then snd (get_depth_image lut dev1 (viewer1 d)) else viewer1 d)"
  by (auto simp add: update_images_def Let_def split: prod.splits option.splits)

lemma update_images_viewer2:
  "viewer2 (update_images lut dev1 dev2 d) =
     (if camera_selector d \<in> set [''Both Cameras'', ''Camera 2 Only'']
      then snd (get_depth_image lut dev2 (viewer2 d)) else viewer2 d)"
  by (auto simp add: update_images_def Let_def split: prod.splits option.splits)

section \<open>Closed examples of the session operations\<close>

lemma start_closed_viewer: "start healthy_device closed_viewer = (Inr (), open_viewer)"
  by (simp add: start_def healthy_device_def closed_viewer_def open_viewer_def
      ZEDCameraViewer_init_def)

theorem C4_get_depth_image_witness:
  "get_depth_image gray_lut healthy_device closed_viewer = (None, closed_viewer)
   \<and> fst (get_depth_image gray_lut healthy_device open_viewer) =
       Some (process_depth_image gray_lut scenario_frame (0, 5000) COLORMAP_JET)
   \<and> fst (get_depth_image gray_lut absent_device open_viewer) = None"
  using C4_get_depth_image_total [of gray_lut healthy_device closed_viewer]
    C4_get_depth_image_total [of gray_lut healthy_device open_viewer]
    C4_get_depth_image_total [of gray_lut absent_device open_viewer]
  by (simp add: closed_viewer_def open_viewer_def ZEDCameraViewer_init_def healthy_device_def
      absent_device_def scenario_frame_def)

lemma absent_device_fails: "open_code absent_device \<noteq> SUCCESS"
  by (simp add: absent_device_def)

lemma healthy_device_opens: "open_code healthy_device = SUCCESS"
  by (simp add: healthy_device_def)

lemma closed_viewer_fields: "\<not> running closed_viewer" "camera closed_viewer = []"
  by (simp_all add: closed_viewer_def ZEDCameraViewer_init_def)

theorem C10_start_atomic_witness:
  "start absent_device closed_viewer = (Inl RuntimeError, closed_viewer\<lparr>camera := [CallOpen]\<rparr>)
   \<and> fst (polls gray_lut [healthy_device, healthy_device] (snd (start absent_device closed_viewer)))
       = [None, None]
   \<and> running (snd (start healthy_device closed_viewer))"
proof -
  note failing = C10_start_atomic_on_failure [of absent_device closed_viewer gray_lut
      "[healthy_device, healthy_device]"]
  note succeeding = C10_start_atomic_on_failure [of healthy_device closed_viewer gray_lut "[]"]
  from failing absent_device_fails
  have a: "start absent_device closed_viewer =
             (Inl RuntimeError, closed_viewer\<lparr>camera := camera closed_viewer @ [CallOpen]\<rparr>)"
    by blast
  from failing absent_device_fails closed_viewer_fields(1)
  have b: "fst (polls gray_lut [healthy_device, healthy_device]
                 (snd (start absent_device closed_viewer)))
             = map (\<lambda>_. None) [healthy_device, healthy_device]"
    by blast
  from succeeding healthy_device_opens
  have c: "running (snd (start healthy_device closed_viewer))"
    by blast
  from a have "start absent_device closed_viewer =
                 (Inl RuntimeError, closed_viewer\<lparr>camera := [CallOpen]\<rparr>)"
    by (simp add: closed_viewer_fields)
  moreover from b have "fst (polls gray_lut [healthy_device, healthy_device]
                 (snd (start absent_device closed_viewer))) = [None, None]"
    by simp
  ultimately show ?thesis using c by blast
qed




section \<open>Failure of one camera\<close>

lemma fresh_window_fields:
  "py_int (fps_combo1 fresh_window) = Inr 15" "py_int (fps_combo2 fresh_window) = Inr 15"
  "camera_selector fresh_window = ''Both Cameras''"
  "viewer1 fresh_window = closed_viewer" "viewer2 fresh_window = closed_viewer"
  "image_label1 fresh_window = None" "image_label2 fresh_window = None"
  "timer fresh_window = None"
  "clip_min_box fresh_window = 0" "clip_max_box fresh_window = 1000"
  by (simp_all add: fresh_window_def DualZEDViewer_init_def py_int_15 closed_viewer_def)

lemma camera2_only_window_fields:
  "py_int (fps_combo1 camera2_only_window) = Inr 15"
  "py_int (fps_combo2 camera2_only_window) = Inr 15"
  "camera_selector camera2_only_window = ''Camera 2 Only''"
  "viewer1 camera2_only_window = closed_viewer" "viewer2 camera2_only_window = closed_viewer"
  "image_label1 camera2_only_window = None" "image_label2 camera2_only_window = None"
  "timer camera2_only_window = None"
  "clip_min_box camera2_only_window = 0" "clip_max_box camera2_only_window = 1000"
  by (simp_all add: camera2_only_window_def fresh_window_fields)

lemma camera1_only_window_fields:
  "py_int (fps_combo1 camera1_only_window) = Inr 15"
  "py_int (fps_combo2 camera1_only_window) = Inr 15"
  "camera_selector camera1_only_window = ''Camera 1 Only''"
  "viewer1 camera1_only_window = closed_viewer" "viewer2 camera1_only_window = closed_viewer"
  "image_label1 camera1_only_window = None" "image_label2 camera1_only_window = None"
  "timer camera1_only_window = None"
  "clip_min_box camera1_only_window = 0" "clip_max_box camera1_only_window = 1000"
  by (simp_all add: camera1_only_window_def fresh_window_fields)

text \<open>
  In the mode \<open>Both Cameras\<close>, with camera 1 absent and camera 2 healthy, the exception
  of camera 1 leaves \<open>start_viewing\<close>: camera 2 is never opened and the timer is not
  started.
\<close>

theorem C5_both_mode_counterexample:
  "fst (start_viewing absent_device healthy_device fresh_window) = Inl RuntimeError
   \<and> running (viewer2 (snd (start_viewing absent_device healthy_device fresh_window))) = False
   \<and> camera (viewer2 (snd (start_viewing absent_device healthy_device fresh_window))) = []
   \<and> timer (snd (start_viewing absent_device healthy_device fresh_window)) = None"
  using start_viewing_both_fail1 [OF fresh_window_fields(1) fresh_window_fields(2)
      fresh_window_fields(3) absent_device_fails, of healthy_device]
  by (simp add: fresh_window_fields closed_viewer_fields)

lemma tick_shows_frame2:
  assumes "camera_selector s = ''Camera 2 Only''" "running (viewer2 s)"
    "grab_code g2 = SUCCESS" "0 < rows (depth_measure g2)" "0 < cols (depth_measure g2)"
  shows "image_label2 (update_images lut g1 g2 s) =
           Some (cv_to_pixmap (process_depth_image lut (depth_measure g2)
             (of_int (fst (clip_range (viewer2 s))), of_int (snd (clip_range (viewer2 s))))
             (colormap (viewer2 s))))"
    "image_label1 (update_images lut g1 g2 s) = image_label1 s"
  using assms by (simp_all add: update_images_pane2 update_images_pane1 get_depth_image_frame)

lemma tick_shows_frame1:
  assumes "camera_selector s = ''Camera 1 Only''" "running (viewer1 s)"
    "grab_code g1 = SUCCESS" "0 < rows (depth_measure g1)" "0 < cols (depth_measure g1)"
  shows "image_label1 (update_images lut g1 g2 s) =
           Some (cv_to_pixmap (process_depth_image lut (depth_measure g1)
             (of_int (fst (clip_range (viewer1 s))), of_int (snd (clip_range (viewer1 s))))
             (colormap (viewer1 s))))"
    "image_label2 (update_images lut g1 g2 s) = image_label2 s"
  using assms by (simp_all add: update_images_pane2 update_images_pane1 get_depth_image_frame)

text \<open>
  C5 (amended). With frame-rate tokens that parse: in the mode \<open>Both Cameras\<close> an open
  failure raises \<^verbatim>\<open>RuntimeError\<close> out of \<open>start_viewing\<close>; if camera 1 fails, camera 2
  is never opened and the timer is not started; if camera 2 fails after camera 1 has
  opened, camera 1 stays running and the timer is not started. In the modes
  \<open>Camera 2 Only\<close> and \<open>Camera 1 Only\<close> the camera that is not selected is never
  opened, so whatever its device would answer, the selected camera starts when its
  own device opens, the other pane is cleared, the timer starts, and a tick whose grab
  succeeds on a grid with rows and columns shows the selected camera's frame and
  leaves the other pane blank.
\<close>

theorem C5_failure_domains:
  assumes "py_int (fps_combo1 d) = Inr f1" and "py_int (fps_combo2 d) = Inr f2"
  shows
  "(camera_selector d = ''Both Cameras'' \<and> open_code dev1 \<noteq> SUCCESS \<longrightarrow>
      fst (start_viewing dev1 dev2 d) = Inl RuntimeError
      \<and> camera (viewer2 (snd (start_viewing dev1 dev2 d))) = camera (viewer2 d)
      \<and> running (viewer2 (snd (start_viewing dev1 dev2 d))) = running (viewer2 d)
      \<and> timer (snd (start_viewing dev1 dev2 d)) = timer d)
   \<and> (camera_selector d = ''Both Cameras'' \<and> open_code dev1 = SUCCESS
       \<and> open_code dev2 \<noteq> SUCCESS \<longrightarrow>
      fst (start_viewing dev1 dev2 d) = Inl RuntimeError
      \<and> running (viewer1 (snd (start_viewing dev1 dev2 d)))
      \<and> timer (snd (start_viewing dev1 dev2 d)) = timer d)
   \<and> (camera_selector d = ''Camera 2 Only'' \<and> open_code dev2 = SUCCESS \<longrightarrow>
      fst (start_viewing dev1 dev2 d) = Inr ()
      \<and> running (viewer2 (snd (start_viewing dev1 dev2 d)))
      \<and> camera (viewer1 (snd (start_viewing dev1 dev2 d))) = camera (viewer1 d)
      \<and> image_label1 (snd (start_viewing dev1 dev2 d)) = None
      \<and> timer (snd (start_viewing dev1 dev2 d)) = Some 30
      \<and> (grab_code g2 = SUCCESS \<and> 0 < rows (depth_measure g2) \<and> 0 < cols (depth_measure g2)
           \<longrightarrow>
          image_label2 (update_images lut g1 g2 (snd (start_viewing dev1 dev2 d))) =
            Some (cv_to_pixmap (process_depth_image lut (depth_measure g2)
              (of_int (clip_min_box d), of_int (clip_max_box d)) (colormap (viewer2 d))))
          \<and> image_label1 (update_images lut g1 g2 (snd (start_viewing dev1 dev2 d))) = None))
   \<and> (camera_selector d = ''Camera 1 Only'' \<and> open_code dev1 = SUCCESS \<longrightarrow>
      fst (start_viewing dev1 dev2 d) = Inr ()
      \<and> running (viewer1 (snd (start_viewing dev1 dev2 d)))
      \<and> camera (viewer2 (snd (start_viewing dev1 dev2 d))) = camera (viewer2 d)
      \<and> image_label2 (snd (start_viewing dev1 dev2 d)) = None
      \<and> timer (snd (start_viewing dev1 dev2 d)) = Some 30
      \<and> (grab_code g1 = SUCCESS \<and> 0 < rows (depth_measure g1) \<and> 0 < cols (depth_measure g1)
           \<longrightarrow>
          image_label1 (update_images lut g1 g2 (snd (start_viewing dev1 dev2 d))) =
            Some (cv_to_pixmap (process_depth_image lut (depth_measure g1)
              (of_int (clip_min_box d), of_int (clip_max_box d)) (colormap (viewer1 d))))
          \<and> image_label2 (update_images lut g1 g2 (snd (start_viewing dev1 dev2 d))) = None))"
proof (intro conjI impI)
  assume h: "camera_selector d = ''Both Cameras'' \<and> open_code dev1 \<noteq> SUCCESS"
  note r = start_viewing_both_fail1 [OF assms, of dev1 dev2]
  from h show "fst (start_viewing dev1 dev2 d) = Inl RuntimeError" by (simp add: r)
  from h show "camera (viewer2 (snd (start_viewing dev1 dev2 d))) = camera (viewer2 d)"
    by (simp add: r)
  from h show "running (viewer2 (snd (start_viewing dev1 dev2 d))) = running (viewer2 d)"
    by (simp add: r)
  from h show "timer (snd (start_viewing dev1 dev2 d)) = timer d" by (simp add: r)
next
  assume h: "camera_selector d = ''Both Cameras'' \<and> open_code dev1 = SUCCESS
       \<and> open_code dev2 \<noteq> SUCCESS"
  note r = start_viewing_both_fail2 [OF assms, of dev1 dev2]
  from h show "fst (start_viewing dev1 dev2 d) = Inl RuntimeError" by (simp add: r)
  from h show "running (viewer1 (snd (start_viewing dev1 dev2 d)))" by (simp add: r)
  from h show "timer (snd (start_viewing dev1 dev2 d)) = timer d" by (simp add: r)
next
  assume h: "camera_selector d = ''Camera 2 Only'' \<and> open_code dev2 = SUCCESS"
  note r = start_viewing_cam2 [OF assms, of dev2 dev1]
  from h show "fst (start_viewing dev1 dev2 d) = Inr ()" by (simp add: r)
  from h show "running (viewer2 (snd (start_viewing dev1 dev2 d)))" by (simp add: r)
  from h show "camera (viewer1 (snd (start_viewing dev1 dev2 d))) = camera (viewer1 d)"
    by (simp add: r)
  from h show "image_label1 (snd (start_viewing dev1 dev2 d)) = None" by (simp add: r)
  from h show "timer (snd (start_viewing dev1 dev2 d)) = Some 30" by (simp add: r)
  assume g: "grab_code g2 = SUCCESS \<and> 0 < rows (depth_measure g2) \<and> 0 < cols (depth_measure g2)"
  from h g show "image_label2 (update_images lut g1 g2 (snd (start_viewing dev1 dev2 d))) =
            Some (cv_to_pixmap (process_depth_image lut (depth_measure g2)
              (of_int (clip_min_box d), of_int (clip_max_box d)) (colormap (viewer2 d))))"
    by (simp add: tick_shows_frame2 r)
  from h g show "image_label1 (update_images lut g1 g2 (snd (start_viewing dev1 dev2 d))) = None"
    by (simp add: tick_shows_frame2 r)
next
  assume h: "camera_selector d = ''Camera 1 Only'' \<and> open_code dev1 = SUCCESS"
  note r = start_viewing_cam1 [OF assms, of dev1 dev2]
  from h show "fst (start_viewing dev1 dev2 d) = Inr ()" by (simp add: r)
  from h show "running (viewer1 (snd (start_viewing dev1 dev2 d)))" by (simp add: r)
  from h show "camera (viewer2 (snd (start_viewing dev1 dev2 d))) = camera (viewer2 d)"
    by (simp add: r)
  from h show "image_label2 (snd (start_viewing dev1 dev2 d)) = None" by (simp add: r)
  from h show "timer (snd (start_viewing dev1 dev2 d)) = Some 30" by (simp add: r)
  assume g: "grab_code g1 = SUCCESS \<and> 0 < rows (depth_measure g1) \<and> 0 < cols (depth_measure g1)"
  from h g show "image_label1 (update_images lut g1 g2 (snd (start_viewing dev1 dev2 d))) =
            Some (cv_to_pixmap (process_depth_image lut (depth_measure g1)
              (of_int (clip_min_box d), of_int (clip_max_box d)) (colormap (viewer1 d))))"
    by (simp add: tick_shows_frame1 r)
  from h g show "image_label2 (update_images lut g1 g2 (snd (start_viewing dev1 dev2 d))) = None"
    by (simp add: tick_shows_frame1 r)
qed

section \<open>Start and tick of the controller\<close>

theorem C5_failure_domains_witness:
  "fst (start_viewing absent_device healthy_device fresh_window) = Inl RuntimeError
   \<and> fst (start_viewing healthy_device absent_device fresh_window) = Inl RuntimeError
   \<and> running (viewer1 (snd (start_viewing healthy_device absent_device fresh_window)))
   \<and> image_label2 (update_images gray_lut absent_device healthy_device
        (snd (start_viewing absent_device healthy_device camera2_only_window))) =
       Some (cv_to_pixmap
         (process_depth_image gray_lut scenario_frame (0, 1000) COLORMAP_JET))
   \<and> image_label1 (update_images gray_lut healthy_device absent_device
        (snd (start_viewing healthy_device absent_device camera1_only_window))) =
       Some (cv_to_pixmap
         (process_depth_image gray_lut scenario_frame (0, 1000) COLORMAP_JET))"
proof -
  have frame: "grab_code healthy_device = SUCCESS" "0 < rows (depth_measure healthy_device)"
    "0 < cols (depth_measure healthy_device)" "depth_measure healthy_device = scenario_frame"
    by (simp_all add: healthy_device_def scenario_frame_def)
  have shape: "0 < rows scenario_frame" "0 < cols scenario_frame"
    by (simp_all add: scenario_frame_def)
  have cm: "colormap closed_viewer = COLORMAP_JET"
    by (simp add: closed_viewer_def ZEDCameraViewer_init_def)
  note both1 = C5_failure_domains [OF fresh_window_fields(1) fresh_window_fields(2),
      of absent_device healthy_device healthy_device gray_lut absent_device]
  note both2 = C5_failure_domains [OF fresh_window_fields(1) fresh_window_fields(2),
      of healthy_device absent_device healthy_device gray_lut absent_device]
  note only2 = C5_failure_domains [OF camera2_only_window_fields(1) camera2_only_window_fields(2),
      of absent_device healthy_device healthy_device gray_lut absent_device]
  note only1 = C5_failure_domains [OF camera1_only_window_fields(1) camera1_only_window_fields(2),
      of healthy_device absent_device absent_device gray_lut healthy_device]
  from both1 have a: "fst (start_viewing absent_device healthy_device fresh_window) = Inl RuntimeError"
    by (simp add: fresh_window_fields absent_device_fails)
  from both2 have b: "fst (start_viewing healthy_device absent_device fresh_window) = Inl RuntimeError"
    "running (viewer1 (snd (start_viewing healthy_device absent_device fresh_window)))"
    by (simp_all add: fresh_window_fields absent_device_fails healthy_device_opens)
  from only2 have c: "image_label2 (update_images gray_lut absent_device healthy_device
        (snd (start_viewing absent_device healthy_device camera2_only_window))) =
       Some (cv_to_pixmap
         (process_depth_image gray_lut scenario_frame (0, 1000) COLORMAP_JET))"
    by (simp add: camera2_only_window_fields healthy_device_opens frame shape cm)
  from only1 have d: "image_label1 (update_images gray_lut healthy_device absent_device
        (snd (start_viewing healthy_device absent_device camera1_only_window))) =
       Some (cv_to_pixmap
         (process_depth_image gray_lut scenario_frame (0, 1000) COLORMAP_JET))"
    by (simp add: camera1_only_window_fields healthy_device_opens frame shape cm)
  from a b c d show ?thesis by blast
qed

text \<open>
  C8. With frame-rate tokens that parse and the selected devices healthy: the mode
  \<open>Both Cameras\<close> leaves both sessions running; \<open>Camera 1 Only\<close> starts session 1,
  leaves the running flag of session 2 and the calls made on its camera as they were
  (its start is never called) and clears pane 2; \<open>Camera 2 Only\<close> does the same with
  the roles exchanged.
\<close>

theorem C8_start_selected:
  assumes "py_int (fps_combo1 d) = Inr f1" and "py_int (fps_combo2 d) = Inr f2"
  shows
  "(camera_selector d = ''Both Cameras'' \<and> open_code dev1 = SUCCESS \<and> open_code dev2 = SUCCESS
      \<longrightarrow>
      fst (start_viewing dev1 dev2 d) = Inr ()
      \<and> running (viewer1 (snd (start_viewing dev1 dev2 d)))
      \<and> running (viewer2 (snd (start_viewing dev1 dev2 d))))
   \<and> (camera_selector d = ''Camera 1 Only'' \<and> open_code dev1 = SUCCESS \<longrightarrow>
      fst (start_viewing dev1 dev2 d) = Inr ()
      \<and> running (viewer1 (snd (start_viewing dev1 dev2 d)))
      \<and> running (viewer2 (snd (start_viewing dev1 dev2 d))) = running (viewer2 d)
      \<and> camera (viewer2 (snd (start_viewing dev1 dev2 d))) = camera (viewer2 d)
      \<and> image_label2 (snd (start_viewing dev1 dev2 d)) = None)
   \<and> (camera_selector d = ''Camera 2 Only'' \<and> open_code dev2 = SUCCESS \<longrightarrow>
      fst (start_viewing dev1 dev2 d) = Inr ()
      \<and> running (viewer2 (snd (start_viewing dev1 dev2 d)))
      \<and> running (viewer1 (snd (start_viewing dev1 dev2 d))) = running (viewer1 d)
      \<and> camera (viewer1 (snd (start_viewing dev1 dev2 d))) = camera (viewer1 d)
      \<and> image_label1 (snd (start_viewing dev1 dev2 d)) = None)"
  using start_viewing_both_ok [OF assms, of dev1 dev2]
    start_viewing_cam1 [OF assms, of dev1 dev2]
    start_viewing_cam2 [OF assms, of dev2 dev1]
  by simp

theorem C8_start_selected_witness:
  "running (viewer1 (snd (start_viewing healthy_device healthy_device fresh_window)))
   \<and> running (viewer2 (snd (start_viewing healthy_device healthy_device fresh_window)))
   \<and> running (viewer1 (snd (start_viewing healthy_device healthy_device
        (camera1_only_window\<lparr>image_label2 := Some shown_pixmap\<rparr>))))
   \<and> running (viewer2 (snd (start_viewing healthy_device healthy_device
        (camera1_only_window\<lparr>image_label2 := Some shown_pixmap\<rparr>)))) = False
   \<and> camera (viewer2 (snd (start_viewing healthy_device healthy_device
        (camera1_only_window\<lparr>image_label2 := Some shown_pixmap\<rparr>)))) = []
   \<and> image_label2 (snd (start_viewing healthy_device healthy_device
        (camera1_only_window\<lparr>image_label2 := Some shown_pixmap\<rparr>))) = None
   \<and> running (viewer1 (snd (start_viewing healthy_device healthy_device
        (camera2_only_window\<lparr>image_label1 := Some shown_pixmap\<rparr>)))) = False
   \<and> image_label1 (snd (start_viewing healthy_device healthy_device
        (camera2_only_window\<lparr>image_label1 := Some shown_pixmap\<rparr>))) = None"
  using C8_start_selected [of fresh_window 15 15 healthy_device healthy_device]
    C8_start_selected [of "camera1_only_window\<lparr>image_label2 := Some shown_pixmap\<rparr>" 15 15
      healthy_device healthy_device]
    C8_start_selected [of "camera2_only_window\<lparr>image_label1 := Some shown_pixmap\<rparr>" 15 15
      healthy_device healthy_device]
  by (simp add: fresh_window_fields camera1_only_window_fields camera2_only_window_fields
      healthy_device_opens closed_viewer_fields)

text \<open>
  C9. On a tick, for a selected session, a returned frame is put on the session's
  pane (converted to RGB) and an absent frame leaves the pane as it was; for a session
  that is not selected, neither its pane nor the session is touched.
\<close>

theorem C9_update_images_panes:
  "(camera_selector d \<in> set [''Both Cameras'', ''Camera 1 Only''] \<longrightarrow>
      (fst (get_depth_image lut dev1 (viewer1 d)) = Some img1 \<longrightarrow>
         image_label1 (update_images lut dev1 dev2 d) = Some (cv_to_pixmap img1))
      \<and> (fst (get_depth_image lut dev1 (viewer1 d)) = None \<longrightarrow>
         image_label1 (update_images lut dev1 dev2 d) = image_label1 d))
   \<and> (camera_selector d \<notin> set [''Both Cameras'', ''Camera 1 Only''] \<longrightarrow>
      image_label1 (update_images lut dev1 dev2 d) = image_label1 d
      \<and> viewer1 (update_images lut dev1 dev2 d) = viewer1 d)
   \<and> (camera_selector d \<in> set [''Both Cameras'', ''Camera 2 Only''] \<longrightarrow>
      (fst (get_depth_image lut dev2 (viewer2 d)) = Some img2 \<longrightarrow>
         image_label2 (update_images lut dev1 dev2 d) = Some (cv_to_pixmap img2))
      \<and> (fst (get_depth_image lut dev2 (viewer2 d)) = None \<longrightarrow>
         image_label2 (update_images lut dev1 dev2 d) = image_label2 d))
   \<and> (camera_selector d \<notin> set [''Both Cameras'', ''Camera 2 Only''] \<longrightarrow>
      image_label2 (update_images lut dev1 dev2 d) = image_label2 d
      \<and> viewer2 (update_images lut dev1 dev2 d) = viewer2 d)"
  by (simp add: update_images_pane1 update_images_pane2 update_images_viewer1
      update_images_viewer2)

lemma open_viewer_fields:
  "running open_viewer" "clip_range open_viewer = (0, 5000)"
  "colormap open_viewer = COLORMAP_JET"
  by (simp_all add: open_viewer_def closed_viewer_def ZEDCameraViewer_init_def)

lemma healthy_device_frame:
  "grab_code healthy_device = SUCCESS" "depth_measure healthy_device = scenario_frame"
  "0 < rows scenario_frame" "0 < cols scenario_frame"
  by (simp_all add: healthy_device_def scenario_frame_def)

lemma absent_device_grab: "grab_code absent_device \<noteq> SUCCESS"
  by (simp add: absent_device_def)

lemma poll_open_healthy:
  "fst (get_depth_image gray_lut healthy_device open_viewer) =
     Some (process_depth_image gray_lut scenario_frame (0, 5000) COLORMAP_JET)"
  using get_depth_image_frame [of open_viewer healthy_device gray_lut]
  by (simp add: open_viewer_fields healthy_device_frame)

lemma poll_open_absent: "fst (get_depth_image gray_lut absent_device open_viewer) = None"
  by (simp add: get_depth_image_None_iff absent_device_grab)

lemma polling_window1_fields:
  "camera_selector polling_window1 = ''Camera 1 Only''"
  "viewer1 polling_window1 = open_viewer" "viewer2 polling_window1 = closed_viewer"
  "image_label1 polling_window1 = None" "image_label2 polling_window1 = None"
  by (simp_all add: polling_window1_def camera1_only_window_fields)

lemma polling_window2_fields:
  "camera_selector polling_window2 = ''Camera 2 Only''"
  "viewer2 polling_window2 = open_viewer" "viewer1 polling_window2 = closed_viewer"
  "image_label1 polling_window2 = None" "image_label2 polling_window2 = None"
  by (simp_all add: polling_window2_def camera2_only_window_fields)

theorem C9_update_images_witness:
  "image_label1 (update_images gray_lut healthy_device healthy_device polling_window1) =
     Some (cv_to_pixmap (process_depth_image gray_lut scenario_frame (0, 5000) COLORMAP_JET))
   \<and> image_label1 (update_images gray_lut absent_device healthy_device
        (polling_window1\<lparr>image_label1 := Some shown_pixmap\<rparr>)) = Some shown_pixmap
   \<and> image_label2 (update_images gray_lut healthy_device healthy_device
        (polling_window1\<lparr>image_label2 := Some shown_pixmap\<rparr>)) = Some shown_pixmap
   \<and> viewer2 (update_images gray_lut healthy_device healthy_device polling_window1)
       = closed_viewer
   \<and> image_label2 (update_images gray_lut healthy_device healthy_device polling_window2) =
     Some (cv_to_pixmap (process_depth_image gray_lut scenario_frame (0, 5000) COLORMAP_JET))
   \<and> image_label2 (update_images gray_lut healthy_device absent_device
        (polling_window2\<lparr>image_label2 := Some shown_pixmap\<rparr>)) = Some shown_pixmap
   \<and> image_label1 (update_images gray_lut healthy_device healthy_device
        (polling_window2\<lparr>image_label1 := Some shown_pixmap\<rparr>)) = Some shown_pixmap"
  using C9_update_images_panes [of polling_window1 gray_lut healthy_device
      "process_depth_image gray_lut scenario_frame (0, 5000) COLORMAP_JET"
      healthy_device
      "process_depth_image gray_lut scenario_frame (0, 5000) COLORMAP_JET"]
    C9_update_images_panes [of "polling_window1\<lparr>image_label1 := Some shown_pixmap\<rparr>" gray_lut absent_device
      "process_depth_image gray_lut scenario_frame (0, 5000) COLORMAP_JET"
      healthy_device
      "process_depth_image gray_lut scenario_frame (0, 5000) COLORMAP_JET"]
    C9_update_images_panes [of "polling_window1\<lparr>image_label2 := Some shown_pixmap\<rparr>" gray_lut healthy_device
      "process_depth_image gray_lut scenario_frame (0, 5000) COLORMAP_JET"
      healthy_device
      "process_depth_image gray_lut scenario_frame (0, 5000) COLORMAP_JET"]
    C9_update_images_panes [of polling_window2 gray_lut healthy_device
      "process_depth_image gray_lut scenario_frame (0, 5000) COLORMAP_JET"
      healthy_device
      "process_depth_image gray_lut scenario_frame (0, 5000) COLORMAP_JET"]
    C9_update_images_panes [of "polling_window2\<lparr>image_label2 := Some shown_pixmap\<rparr>" gray_lut healthy_device
      "process_depth_image gray_lut scenario_frame (0, 5000) COLORMAP_JET"
      absent_device
      "process_depth_image gray_lut scenario_frame (0, 5000) COLORMAP_JET"]
    C9_update_images_panes [of "polling_window2\<lparr>image_label1 := Some shown_pixmap\<rparr>" gray_lut healthy_device
      "process_depth_image gray_lut scenario_frame (0, 5000) COLORMAP_JET"
      healthy_device
      "process_depth_image gray_lut scenario_frame (0, 5000) COLORMAP_JET"]
  by (simp add: polling_window1_fields polling_window2_fields poll_open_healthy poll_open_absent)

end
